theory Spec2Isabelle
  imports Complex_Main
begin

section \<open>The multimodal tutoring session of \<open>src/lib/api/mediaStreamTutor.ts\<close>\<close>

text \<open>
  The class \<open>MediaStreamTutorSession\<close> is embedded as a record of its fields together
  with the part of the browser it talks to (the speech-synthesis queue, the recognizer
  instances it has created, the pending \<open>setTimeout\<close> callbacks). Every method is a
  function from session to session. What the browser or the network answers (a media
  request, a frame grab, the generative API) is an argument of the method. Everything the
  class sends out (messages to its handlers, state notifications, SDK calls, stored
  snapshots) is appended to a log field of the record.

  An \<open>async\<close> method is embedded as one function that runs from its call to the moment
  it settles, with the answer of each awaited call given as an argument.

  The message texts of the source are Korean string literals. A \<open>string\<close> here is a list
  of 8-bit characters, so each literal is a named constant holding an English rendering;
  no theorem depends on the characters of such a constant.
\<close>

subsection \<open>Data\<close>

datatype role = User | Model | Tutor | System

record history_msg =
  role :: role
  content :: string

text \<open>The SDK's \<open>Content\<close>: a role (\<open>'user'\<close> or \<open>'model'\<close> after conversion) and parts.\<close>

datatype part = Text string | InlineData string string

record gemini_content =
  c_role :: role
  parts :: "part list"

record MediaStreamSessionState =
  isConnected :: bool
  isAudioActive :: bool
  isVideoActive :: bool
  isScreenActive :: bool
  isProcessing :: bool
  isSpeaking :: bool

datatype msg_type = SystemInfo | UserMessage | TutorMessage | SpeechText

text \<open>A message handed to \<open>sendMessage\<close>; \<open>interim\<close> is present on speech-text messages only.
  The \<open>timestamp: new Date()\<close> field is left out.\<close>

record out_message =
  mtype :: msg_type
  mcontent :: string
  interim :: "bool option"

text \<open>A thrown value: a \<open>DOMException\<close> with its name and message, or another \<open>Error\<close>
  with its message.\<close>

datatype js_error = DOMException string string | Error string

datatype track_kind = AudioTrack | VideoTrack
datatype ready_state = Live | Ended

record track =
  kind :: track_kind
  label :: string
  readyState :: ready_state
  enabled :: bool
  onended :: bool

type_synonym media_stream = "track list"

datatype media_result = Granted media_stream | Rejected js_error

record utterance =
  u_text :: string
  u_lang :: string
  u_rate :: real
  u_pitch :: real
  u_volume :: real
  u_onend :: bool
  u_onerror :: bool

text \<open>A \<open>SpeechRecognition\<close> instance: its settings, which handlers are attached, and
  whether it is running (started and neither stopped nor ended).\<close>

record recognizer =
  continuous :: bool
  interimResults :: bool
  r_lang :: string
  onresult :: bool
  onerror :: bool
  onend :: bool
  running :: bool

datatype callback = AudioStartTimer | RestartTimer | CreateTimer | StartTimer | SpeakWatchdog

datatype sdk_call =
    StartChat "gemini_content list"
  | GenerateContent "part list"

datatype grab_result = GrabThrows | Frame string

text \<open>How a call of \<open>analyzeScreenAndSpeech\<close> goes: an exception while the model and the
  chat are set up (caught by the outer \<open>catch\<close>), or the request is made and
  \<open>generateContent\<close> either fails (its promise rejects, or \<open>result.response.text()\<close>
  throws: the inner \<open>catch\<close>) or returns a text.\<close>

datatype api_result = ApiFails | ApiReturns string

datatype analyze_outcome = ModelSetupThrows | Requested api_result

text \<open>What the runtime provides: the module constant \<open>API_KEY\<close> (truthy or not), the
  browser globals the code tests for, and which browser calls throw.\<close>

record MediaStreamConfig =
  audio :: bool
  video :: bool
  screen :: bool

record runtime =
  API_KEY :: bool
  hasWindow :: bool
  hasImageCapture :: bool
  hasSpeechRecognition :: bool
  hasSpeechSynthesis :: bool
  hasMediaDevices :: bool
  recognitionCtorThrows :: bool
  recognitionStartThrows :: bool
  recognitionStopThrows :: bool
  synthSpeakThrows :: bool
  grabFrame :: "track \<Rightarrow> grab_result"

record session =
  state :: MediaStreamSessionState
  localAudioStream :: "media_stream option"
  localVideoStream :: "media_stream option"
  localScreenStream :: "media_stream option"
  speechRecognition :: "nat option"
  speechSynthesis :: "utterance option"
  messageHistory :: "history_msg list"
  sessionId :: string
  userId :: string
  subject :: string
  level :: string
  capturePeriod :: nat
  captureInterval :: "nat option"
  speechToTextResult :: string
  recognizers :: "recognizer list"
  synthQueue :: "utterance list"
  timers :: "(nat \<times> callback) list"
  clock :: nat
  sentMessages :: "out_message list"
  stateChanges :: "MediaStreamSessionState list"
  sdkCalls :: "sdk_call list"
  analyzeCalls :: "(string \<times> string) list"
  savedSessions :: "history_msg list list"

text \<open>
  \<^item> \<open>speechRecognition\<close> is the reference \<open>this.speechRecognition\<close>: the index in
    \<open>recognizers\<close> of the instance it points to. \<open>recognizers\<close> holds every instance
    created so far; \<open>new SpeechRecognition()\<close> appends one.
  \<^item> \<open>synthQueue\<close> is the utterance queue of \<open>window.speechSynthesis\<close>;
    \<open>window.speechSynthesis.speaking\<close> is \<open>synthQueue \<noteq> []\<close>.
  \<^item> \<open>captureInterval\<close> is \<open>Some p\<close> while a \<open>setInterval\<close> timer of period \<open>p\<close> ms calls
    \<open>captureScreenFrame\<close>.
  \<^item> \<open>timers\<close> holds the pending \<open>setTimeout\<close> callbacks with their due time; \<open>clock\<close>
    is the time in ms.
  \<^item> \<open>sentMessages\<close>, \<open>stateChanges\<close>, \<open>sdkCalls\<close>, \<open>savedSessions\<close> log the calls of
    \<open>sendMessage\<close>, the notifications of \<open>updateState\<close>, the calls into the generative-AI
    SDK and the snapshots written by \<open>saveSession\<close>. \<open>analyzeCalls\<close> records every
    invocation of \<open>analyzeScreenAndSpeech\<close> with its two arguments.
\<close>

subsection \<open>Text constants\<close>

definition TUTOR_SYSTEM_PROMPT :: string where
  "TUTOR_SYSTEM_PROMPT = ''You are RealTutor, a personalised AI learning tutor. [...] Answer in Korean.''"

definition constructorSystemContent :: "string \<Rightarrow> string \<Rightarrow> string" where
  "constructorSystemContent subj lvl =
     TUTOR_SYSTEM_PROMPT @ ''\<newline>\<newline>Subject: '' @ subj @ ''\<newline>Learner level: '' @ lvl"

definition systemPrompt :: "string \<Rightarrow> string \<Rightarrow> string" where
  "systemPrompt subj lvl =
     ''You are an AI tutor. You are teaching the student '' @ subj @ ''('' @ lvl @ '' level).''
     @ ''\<newline>Follow these guidelines: 1. [...] 2. Answer in 3-4 sentences. 3. [...] 4. [...] 5. [...]''"

definition defaultUserMessage :: string where
  "defaultUserMessage = ''Please analyse the current screen.''"

definition questionMessage :: "string \<Rightarrow> string" where
  "questionMessage speechText =
     ''Student question: '' @ speechText @ ''\<newline>\<newline>Analyse the screen and answer this question.''"

definition retryLaterMessage :: string where
  "retryLaterMessage = ''An error occurred while analysing the screen. Please try again later.''"

definition synthesisErrorMessage :: string where
  "synthesisErrorMessage = ''There was a problem with the voice output. Continue the conversation in text.''"

definition micPermissionMessage :: string where
  "micPermissionMessage = ''No permission to access the microphone. Allow it in the browser settings.''"

definition cameraPermissionMessage :: string where
  "cameraPermissionMessage = ''No permission to access the camera. Allow it in the browser settings.''"

definition screenPermissionMessage :: string where
  "screenPermissionMessage = ''Screen sharing permission was denied. Allow it in the browser settings.''"

definition unknownErrorText :: string where
  "unknownErrorText = ''unknown error''"


definition mediaDevicesUnsupported :: string where
  "mediaDevicesUnsupported = ''This browser does not support the mediaDevices API''"

definition noVideoTrackMessage :: string where
  "noVideoTrackMessage = ''No video track found''"

definition noScreenTrackMessage :: string where
  "noScreenTrackMessage = ''No screen sharing track found''"

definition undefinedPropertyMessage :: string where
  "undefinedPropertyMessage = ''Cannot read properties of undefined''"

fun errorMessageOf :: "js_error \<Rightarrow> string" where
  "errorMessageOf (DOMException n m) = m"
| "errorMessageOf (Error m) = m"

fun isNotAllowedError :: "js_error \<Rightarrow> bool" where
  "isNotAllowedError (DOMException n m) = (n = ''NotAllowedError'')"
| "isNotAllowedError (Error m) = False"

subsection \<open>\<open>updateState\<close>, \<open>sendMessage\<close>, \<open>setTimeout\<close>\<close>

definition updateState ::
  "(MediaStreamSessionState \<Rightarrow> MediaStreamSessionState) \<Rightarrow> session \<Rightarrow> session" where
  "updateState newState s =
     s\<lparr>state := newState (state s), stateChanges := stateChanges s @ [newState (state s)]\<rparr>"

definition sendMessage :: "out_message \<Rightarrow> session \<Rightarrow> session" where
  "sendMessage m s = s\<lparr>sentMessages := sentMessages s @ [m]\<rparr>"

definition systemInfo :: "string \<Rightarrow> out_message" where
  "systemInfo c = \<lparr>mtype = SystemInfo, mcontent = c, interim = None\<rparr>"

definition setTimeout :: "callback \<Rightarrow> nat \<Rightarrow> session \<Rightarrow> session" where
  "setTimeout cb delay s = s\<lparr>timers := timers s @ [(clock s + delay, cb)]\<rparr>"

subsection \<open>\<open>convertToGeminiHistory\<close>\<close>

definition convertRole :: "role \<Rightarrow> role" where
  "convertRole r = (if r = Tutor then Model else (if r = System then User else r))"

definition convertToGeminiHistory :: "history_msg list \<Rightarrow> gemini_content list" where
  "convertToGeminiHistory hist =
     map (\<lambda>msg. \<lparr>c_role = convertRole (role msg), parts = [Text (content msg)]\<rparr>) hist"

subsection \<open>Speech synthesis: \<open>speakResponse\<close> and the utterance events\<close>

definition newUtterance :: "string \<Rightarrow> utterance" where
  "newUtterance t =
     \<lparr>u_text = t, u_lang = ''ko-KR'', u_rate = 1.2, u_pitch = 1.0, u_volume = 1.0,
      u_onend = True, u_onerror = True\<rparr>"

text \<open>\<open>window.speechSynthesis.cancel()\<close> removes every utterance from the queue.
  An exception inside the \<open>try\<close> block is modelled at the call
  \<open>window.speechSynthesis.speak\<close>.\<close>

definition speakResponse :: "runtime \<Rightarrow> string \<Rightarrow> session \<Rightarrow> session" where
  "speakResponse env t s =
     (if speechSynthesis s = None \<or> \<not> hasSpeechSynthesis env then s
      else
        let s1 = s\<lparr>synthQueue := []\<rparr>;
            s2 = updateState (\<lambda>st. st\<lparr>isSpeaking := True\<rparr>) s1;
            s3 = s2\<lparr>speechSynthesis := Some (newUtterance t)\<rparr>
        in if synthSpeakThrows env
           then updateState (\<lambda>st. st\<lparr>isSpeaking := False\<rparr>) s3
           else setTimeout SpeakWatchdog 1000 (s3\<lparr>synthQueue := synthQueue s3 @ [newUtterance t]\<rparr>))"

text \<open>The browser ends the utterance at the head of the queue and fires its \<open>end\<close> event
  (or its \<open>error\<close> event); the handlers are the closures set by \<open>speakResponse\<close>.\<close>

definition utterance_onend :: "session \<Rightarrow> session" where
  "utterance_onend s =
     (case synthQueue s of
        [] \<Rightarrow> s
      | u # us \<Rightarrow>
          (if u_onend u then updateState (\<lambda>st. st\<lparr>isSpeaking := False\<rparr>) (s\<lparr>synthQueue := us\<rparr>)
           else s\<lparr>synthQueue := us\<rparr>))"

definition utterance_onerror :: "session \<Rightarrow> session" where
  "utterance_onerror s =
     (case synthQueue s of
        [] \<Rightarrow> s
      | u # us \<Rightarrow>
          (if u_onerror u
           then updateState (\<lambda>st. st\<lparr>isSpeaking := False\<rparr>)
                  (sendMessage (systemInfo synthesisErrorMessage) (s\<lparr>synthQueue := us\<rparr>))
           else s\<lparr>synthQueue := us\<rparr>))"


subsection \<open>\<open>saveSession\<close>\<close>

definition saveSession :: "session \<Rightarrow> session" where
  "saveSession s =
     (if userId s = [] \<or> sessionId s = [] then s
      else s\<lparr>savedSessions := savedSessions s @ [messageHistory s]\<rparr>)"

subsection \<open>The tutor response engine: \<open>analyzeScreenAndSpeech\<close>\<close>

text \<open>\<open>analyzeRequest\<close> is the \<open>try\<close> block up to the awaited \<open>model.generateContent\<close>:
  the history is converted and a chat is started with it, the user message is built,
  pushed to the history and sent to the handlers when \<open>speechText\<close> is non-empty, and
  \<open>generateContent\<close> is called on the model with the three parts.\<close>

definition analyzeRequest :: "string \<Rightarrow> string \<Rightarrow> session \<Rightarrow> session" where
  "analyzeRequest imageData speechText s =
     (let geminiHistory = convertToGeminiHistory (messageHistory s);
          s1 = s\<lparr>sdkCalls := sdkCalls s @ [StartChat geminiHistory]\<rparr>;
          userMessage = (if speechText \<noteq> [] then questionMessage speechText else defaultUserMessage);
          s2 = (if speechText \<noteq> []
                then sendMessage \<lparr>mtype = UserMessage, mcontent = userMessage, interim = None\<rparr>
                       (s1\<lparr>messageHistory := messageHistory s1 @ [\<lparr>role = User, content = userMessage\<rparr>]\<rparr>)
                else s1)
      in s2\<lparr>sdkCalls := sdkCalls s2 @
               [GenerateContent [Text (systemPrompt (subject s2) (level s2)), Text userMessage,
                                 InlineData imageData ''image/jpeg'']]\<rparr>)"

text \<open>What follows the \<open>await\<close>: the success path, or the inner \<open>catch\<close>.\<close>

definition analyzeResponse :: "runtime \<Rightarrow> api_result \<Rightarrow> session \<Rightarrow> session" where
  "analyzeResponse env res s =
     (case res of
        ApiReturns responseText \<Rightarrow>
          saveSession
            (speakResponse env responseText
              (sendMessage \<lparr>mtype = TutorMessage, mcontent = responseText, interim = None\<rparr>
                (s\<lparr>messageHistory := messageHistory s @ [\<lparr>role = Tutor, content = responseText\<rparr>]\<rparr>)))
      | ApiFails \<Rightarrow> sendMessage (systemInfo retryLaterMessage) s)"

text \<open>The session while the request is in flight (between the call of
  \<open>model.generateContent\<close> and its settling).\<close>

definition analyzeInFlight :: "string \<Rightarrow> string \<Rightarrow> session \<Rightarrow> session" where
  "analyzeInFlight imageData speechText s =
     analyzeRequest imageData speechText (updateState (\<lambda>st. st\<lparr>isProcessing := True\<rparr>) s)"

definition analyzeScreenAndSpeech ::
  "runtime \<Rightarrow> analyze_outcome \<Rightarrow> string \<Rightarrow> string \<Rightarrow> session \<Rightarrow> session" where
  "analyzeScreenAndSpeech env outcome imageData speechText s0 =
     (let s = s0\<lparr>analyzeCalls := analyzeCalls s0 @ [(imageData, speechText)]\<rparr>
      in if \<not> API_KEY env then s
         else updateState (\<lambda>st. st\<lparr>isProcessing := False\<rparr>)
                (case outcome of
                   ModelSetupThrows \<Rightarrow> updateState (\<lambda>st. st\<lparr>isProcessing := True\<rparr>) s
                 | Requested res \<Rightarrow> analyzeResponse env res (analyzeInFlight imageData speechText s)))"

subsection \<open>Speech recognition results: the \<open>onresult\<close> handler\<close>

text \<open>An event carries the results from \<open>event.resultIndex\<close> on, each with the transcript
  of its first alternative and its \<open>isFinal\<close> flag. The loop accumulates
  \<open>(interimTranscript, finalTranscript)\<close>.\<close>

fun transcripts :: "(string \<times> bool) list \<Rightarrow> string \<times> string \<Rightarrow> string \<times> string" where
  "transcripts [] acc = acc"
| "transcripts ((transcript, isFinal) # rs) (interimTranscript, finalTranscript) =
     transcripts rs
       (if isFinal then (interimTranscript, finalTranscript @ transcript)
        else (interimTranscript @ transcript, finalTranscript))"

definition onresult_handler :: "(string \<times> bool) list \<Rightarrow> session \<Rightarrow> session" where
  "onresult_handler results s =
     (let (interimTranscript, finalTranscript) = transcripts results ([], [])
      in if finalTranscript \<noteq> []
         then sendMessage \<lparr>mtype = SpeechText, mcontent = finalTranscript, interim = Some False\<rparr>
                (s\<lparr>speechToTextResult := finalTranscript\<rparr>)
         else if interimTranscript \<noteq> []
         then sendMessage \<lparr>mtype = SpeechText, mcontent = interimTranscript, interim = Some True\<rparr> s
         else s)"

subsection \<open>The frame sampler: \<open>startScreenCapture\<close> and \<open>captureScreenFrame\<close>\<close>

definition startScreenCapture :: "session \<Rightarrow> session" where
  "startScreenCapture s = s\<lparr>captureInterval := Some (capturePeriod s)\<rparr>"

definition getVideoTracks :: "media_stream \<Rightarrow> track list" where
  "getVideoTracks st = filter (\<lambda>t. kind t = VideoTrack) st"

text \<open>One tick of the interval timer. \<open>grabFrame env\<close> answers \<open>imageCapture.grabFrame()\<close>
  followed by the encoding to base64 for the given track: an exception, or the data
  after the comma of the data URL (empty when there is none).\<close>

definition captureScreenFrame :: "runtime \<Rightarrow> analyze_outcome \<Rightarrow> session \<Rightarrow> session" where
  "captureScreenFrame env outcome s =
     (case localScreenStream s of
        None \<Rightarrow> s
      | Some stream \<Rightarrow>
          if \<not> isScreenActive (state s) then s
          else
            (case getVideoTracks stream of
               [] \<Rightarrow> s
             | videoTrack # _ \<Rightarrow>
                 if \<not> (hasWindow env \<and> hasImageCapture env) then s
                 else
                   (case grabFrame env videoTrack of
                      GrabThrows \<Rightarrow> s
                    | Frame base64Data \<Rightarrow>
                        if base64Data = [] then s
                        else
                          let speechText = speechToTextResult s
                          in if speechText \<noteq> []
                             then (analyzeScreenAndSpeech env outcome base64Data speechText s)
                                    \<lparr>speechToTextResult := []\<rparr>
                             else s)))"

subsection \<open>The speech recognizer: set-up, restart and the timers\<close>

definition modifyRecognizer :: "nat \<Rightarrow> (recognizer \<Rightarrow> recognizer) \<Rightarrow> session \<Rightarrow> session" where
  "modifyRecognizer i f s = s\<lparr>recognizers := (recognizers s)[i := f (recognizers s ! i)]\<rparr>"

definition newRecognizer :: recognizer where
  "newRecognizer =
     \<lparr>continuous = True, interimResults = True, r_lang = ''ko-KR'',
      onresult = False, onerror = False, onend = False, running = False\<rparr>"


text \<open>The clean-up of \<open>safeStartSpeechRecognition\<close> and \<open>stopAudioStream\<close>: the three
  handlers are set to \<open>null\<close>, then \<open>stop()\<close> is tried (an exception is swallowed).\<close>

definition detachAndStop :: "runtime \<Rightarrow> nat \<Rightarrow> session \<Rightarrow> session" where
  "detachAndStop env i s =
     modifyRecognizer i
       (\<lambda>r. r\<lparr>onresult := False, onerror := False, onend := False,
              running := (if recognitionStopThrows env then running r else False)\<rparr>) s"






definition onerror_handler :: "string \<Rightarrow> session \<Rightarrow> session" where
  "onerror_handler err s =
     (if err = ''no-speech'' then s
      else if err = ''not-allowed'' then sendMessage (systemInfo micPermissionMessage) s
      else s)"




subsection \<open>The capability negotiator: starting and stopping the streams\<close>

text \<open>A start method returns the exception it throws, if any, with the session as it
  has left it. The WebRTC peer connection and the data channel (\<open>initialize\<close>,
  \<open>addTrack\<close>), the analytics calls of \<open>recordActivity\<close> and the console output are not
  part of the model.\<close>

definition stopTrack :: "track \<Rightarrow> track" where
  "stopTrack t = t\<lparr>readyState := Ended\<rparr>"

definition stopVideoTracks :: "media_stream \<Rightarrow> media_stream" where
  "stopVideoTracks st = map (\<lambda>t. if kind t = VideoTrack then stopTrack t else t) st"


definition startVideoStream :: "runtime \<Rightarrow> media_result \<Rightarrow> session \<Rightarrow> js_error option \<times> session" where
  "startVideoStream env res s =
     (let s1 = (case localVideoStream s of
                  None \<Rightarrow> s
                | Some old \<Rightarrow> s\<lparr>localVideoStream := Some (map stopTrack old)\<rparr>);
          attempt =
            (if \<not> hasMediaDevices env then Inl (Error mediaDevicesUnsupported, s1)
             else case res of
                    Rejected e \<Rightarrow> Inl (e, s1)
                  | Granted st \<Rightarrow>
                      if getVideoTracks st \<noteq> []
                      then Inr (updateState (\<lambda>st. st\<lparr>isVideoActive := True\<rparr>)
                                 (s1\<lparr>localVideoStream :=
                                       Some (map (\<lambda>t. if kind t = VideoTrack then t\<lparr>enabled := True\<rparr> else t) st)\<rparr>))
                      else Inl (Error noVideoTrackMessage, s1\<lparr>localVideoStream := Some st\<rparr>))
      in case attempt of
           Inr s' \<Rightarrow> (None, s')
         | Inl (e, s') \<Rightarrow>
             (Some e,
              sendMessage
                (systemInfo (if isNotAllowedError e then cameraPermissionMessage
                             else ''Camera access error: '' @ errorMessageOf e)) s'))"

definition startScreenStream :: "runtime \<Rightarrow> media_result \<Rightarrow> session \<Rightarrow> js_error option \<times> session" where
  "startScreenStream env res s =
     (let s1 = (case localScreenStream s of
                  None \<Rightarrow> s
                | Some old \<Rightarrow> s\<lparr>localScreenStream := Some (map stopTrack old)\<rparr>);
          attempt =
            (if \<not> hasMediaDevices env then Inl (Error undefinedPropertyMessage, s1)
             else case res of
                    Rejected e \<Rightarrow> Inl (e, s1)
                  | Granted st \<Rightarrow>
                      if getVideoTracks st \<noteq> []
                      then Inr (startScreenCapture
                                 (updateState (\<lambda>st. st\<lparr>isScreenActive := True\<rparr>)
                                   (s1\<lparr>localScreenStream :=
                                         Some (map (\<lambda>t. if kind t = VideoTrack
                                                         then t\<lparr>onended := True, enabled := True\<rparr> else t) st)\<rparr>)))
                      else Inl (Error noScreenTrackMessage, s1\<lparr>localScreenStream := Some st\<rparr>))
      in case attempt of
           Inr s' \<Rightarrow> (None, s')
         | Inl (e, s') \<Rightarrow>
             (Some e,
              sendMessage
                (systemInfo (if isNotAllowedError e then screenPermissionMessage
                             else ''Screen sharing error: '' @ errorMessageOf e)) s'))"

definition stopAudioStream :: "runtime \<Rightarrow> session \<Rightarrow> session" where
  "stopAudioStream env s =
     (let s1 = updateState (\<lambda>st. st\<lparr>isAudioActive := False\<rparr>) s;
          s2 = (case speechRecognition s1 of
                  None \<Rightarrow> s1
                | Some i \<Rightarrow> (detachAndStop env i s1)\<lparr>speechRecognition := None\<rparr>)
      in case localAudioStream s2 of
           None \<Rightarrow> s2
         | Some st \<Rightarrow> s2\<lparr>localAudioStream := None\<rparr>)"

definition stopVideoStream :: "session \<Rightarrow> session" where
  "stopVideoStream s =
     (case localVideoStream s of
        None \<Rightarrow> s
      | Some st \<Rightarrow>
          updateState (\<lambda>st. st\<lparr>isVideoActive := False\<rparr>) (s\<lparr>localVideoStream := Some (stopVideoTracks st)\<rparr>))"

definition stopScreenStream :: "session \<Rightarrow> session" where
  "stopScreenStream s =
     (let s1 = (case localScreenStream s of
                  None \<Rightarrow> s
                | Some st \<Rightarrow>
                    updateState (\<lambda>st. st\<lparr>isScreenActive := False\<rparr>)
                      (s\<lparr>localScreenStream := Some (stopVideoTracks st)\<rparr>))
      in case captureInterval s1 of
           None \<Rightarrow> s1
         | Some p \<Rightarrow> s1\<lparr>captureInterval := None\<rparr>)"


subsection \<open>The constructor\<close>

definition new_session :: "runtime \<Rightarrow> string \<Rightarrow> string \<Rightarrow> string \<Rightarrow> string \<Rightarrow> session" where
  "new_session env sid uid subj lvl =
     (let withRecognizer = (hasWindow env \<and> hasSpeechRecognition env)
      in \<lparr>state = \<lparr>isConnected = False, isAudioActive = False, isVideoActive = False,
                   isScreenActive = False, isProcessing = False, isSpeaking = False\<rparr>,
          localAudioStream = None,
          localVideoStream = None,
          localScreenStream = None,
          speechRecognition = (if withRecognizer then Some 0 else None),
          speechSynthesis =
            (if hasWindow env
             then Some \<lparr>u_text = [], u_lang = ''ko-KR'', u_rate = 1.0, u_pitch = 1.0, u_volume = 1.0,
                        u_onend = False, u_onerror = False\<rparr>
             else None),
          messageHistory = [\<lparr>role = System, content = constructorSystemContent subj lvl\<rparr>],
          sessionId = sid,
          userId = uid,
          subject = subj,
          level = lvl,
          capturePeriod = 5000,
          captureInterval = None,
          speechToTextResult = [],
          recognizers =
            (if withRecognizer
             then [newRecognizer\<lparr>onresult := True, onerror := True, onend := True\<rparr>] else []),
          synthQueue = [],
          timers = [],
          clock = 0,
          sentMessages = [],
          stateChanges = [],
          sdkCalls = [],
          analyzeCalls = [],
          savedSessions = []\<rparr>)"

subsection \<open>Notions used in the statements\<close>

text \<open>The final transcript that an \<open>onresult\<close> event carries.\<close>

definition finalTranscriptOf :: "(string \<times> bool) list \<Rightarrow> string" where
  "finalTranscriptOf results = snd (transcripts results ([], []))"

text \<open>A tick obtains the encoded frame \<open>b\<close>: the screen is shared, the capture API is there,
  and grabbing from the first video track of the screen stream gives the non-empty data
  \<open>b\<close>.\<close>

definition capturesFrame :: "runtime \<Rightarrow> session \<Rightarrow> string \<Rightarrow> bool" where
  "capturesFrame env s b =
     (isScreenActive (state s) \<and> hasWindow env \<and> hasImageCapture env \<and> b \<noteq> [] \<and>
      (case localScreenStream s of
         None \<Rightarrow> False
       | Some stream \<Rightarrow>
           (case getVideoTracks stream of
              [] \<Rightarrow> False
            | videoTrack # _ \<Rightarrow> grabFrame env videoTrack = Frame b)))"

text \<open>The requests that went to the generative-language API: the \<open>generateContent\<close> calls.
  (\<open>startChat\<close> only builds a local chat object.)\<close>

fun isRequest :: "sdk_call \<Rightarrow> bool" where
  "isRequest (GenerateContent ps) = True"
| "isRequest (StartChat h) = False"

definition requestsSent :: "session \<Rightarrow> sdk_call list" where
  "requestsSent s = filter isRequest (sdkCalls s)"

text \<open>A recognizer as \<open>setupSpeechRecognition\<close> leaves a new instance: the three handlers set,
  not started yet.\<close>

definition attached :: recognizer where
  "attached = newRecognizer\<lparr>onresult := True, onerror := True, onend := True\<rparr>"


subsection \<open>Concrete sessions\<close>

definition demo_runtime :: runtime where
  "demo_runtime =
     \<lparr>API_KEY = True, hasWindow = True, hasImageCapture = True, hasSpeechRecognition = True,
      hasSpeechSynthesis = True, hasMediaDevices = True, recognitionCtorThrows = False,
      recognitionStartThrows = False, recognitionStopThrows = False, synthSpeakThrows = False,
      grabFrame = (\<lambda>t. if readyState t = Live then Frame ''IMG'' else GrabThrows)\<rparr>"


text \<open>The same runtime in a browser without the \<open>ImageCapture\<close> API.\<close>

definition no_capture_runtime :: runtime where
  "no_capture_runtime = demo_runtime\<lparr>hasImageCapture := False\<rparr>"

definition camera_track :: track where
  "camera_track = \<lparr>kind = VideoTrack, label = ''camera'', readyState = Live, enabled = True, onended = False\<rparr>"

definition screen_track :: track where
  "screen_track = \<lparr>kind = VideoTrack, label = ''screen'', readyState = Live, enabled = True, onended = False\<rparr>"


definition fresh_session :: session where
  "fresh_session = new_session demo_runtime ''s1'' ''u1'' ''algebra'' ''beginner''"

definition sharing_session :: session where
  "sharing_session = snd (startScreenStream demo_runtime (Granted [screen_track]) fresh_session)"

definition camera_session :: session where
  "camera_session = snd (startVideoStream demo_runtime (Granted [camera_track]) fresh_session)"

definition heard_session :: session where
  "heard_session = onresult_handler [(''hello'', True)] sharing_session"

definition tutored_session :: session where
  "tutored_session =
     analyzeScreenAndSpeech demo_runtime (Requested (ApiReturns ''A variable is a name for a number.''))
       ''IMG1'' ''what is a variable'' fresh_session"


definition camera_heard_session :: session where
  "camera_heard_session = onresult_handler [(''hello'', True)] camera_session"






section \<open>Properties\<close>

subsection \<open>Effects of the operations, field by field\<close>

lemmas session_ops =
  updateState_def sendMessage_def setTimeout_def saveSession_def speakResponse_def
  analyzeRequest_def analyzeResponse_def analyzeInFlight_def analyzeScreenAndSpeech_def

lemmas start_defs = startVideoStream_def startScreenStream_def startScreenCapture_def
  updateState_def sendMessage_def Let_def

lemmas stop_defs = stopAudioStream_def stopVideoStream_def stopScreenStream_def detachAndStop_def
  modifyRecognizer_def updateState_def Let_def


lemma transcripts_concat:
  "transcripts rs (i, f) =
     (i @ concat (map fst (filter (\<lambda>r. \<not> snd r) rs)), f @ concat (map fst (filter snd rs)))"
  by (induction rs arbitrary: i f) auto

lemma finalTranscriptOf_concat: "finalTranscriptOf rs = concat (map fst (filter snd rs))"
  by (simp add: finalTranscriptOf_def transcripts_concat)


lemma tick_captured:
  "capturesFrame env s b \<Longrightarrow>
     captureScreenFrame env out s =
       (if speechToTextResult s \<noteq> []
        then (analyzeScreenAndSpeech env out b (speechToTextResult s) s)\<lparr>speechToTextResult := []\<rparr>
        else s)"
  by (auto simp: capturesFrame_def captureScreenFrame_def Let_def split: option.splits list.splits)

lemma tick_screen_inactive:
  "\<not> isScreenActive (state s) \<or> localScreenStream s = None \<Longrightarrow> captureScreenFrame env out s = s"
  by (auto simp: captureScreenFrame_def split: option.splits)



lemma analyzeCalls_analyze:
  "analyzeCalls (analyzeScreenAndSpeech env out b t s) = analyzeCalls s @ [(b, t)]"
  by (simp add: session_ops Let_def split: analyze_outcome.splits api_result.splits)

lemma analyze_fail_history:
  "API_KEY env \<Longrightarrow>
   messageHistory (analyzeScreenAndSpeech env (Requested ApiFails) imageData speechText s) =
     messageHistory s @
       (if speechText \<noteq> [] then [\<lparr>role = User, content = questionMessage speechText\<rparr>] else [])"
  by (simp add: session_ops Let_def)

lemma analyze_fail_sent:
  "API_KEY env \<Longrightarrow>
   sentMessages (analyzeScreenAndSpeech env (Requested ApiFails) imageData speechText s) =
     sentMessages s @
       (if speechText \<noteq> []
        then [\<lparr>mtype = UserMessage, mcontent = questionMessage speechText, interim = None\<rparr>] else []) @
       [systemInfo retryLaterMessage]"
  by (simp add: session_ops Let_def)

lemma analyze_ok_history:
  "API_KEY env \<Longrightarrow>
   messageHistory (analyzeScreenAndSpeech env (Requested (ApiReturns responseText)) imageData speechText s) =
     messageHistory s @
       (if speechText \<noteq> [] then [\<lparr>role = User, content = questionMessage speechText\<rparr>] else []) @
       [\<lparr>role = Tutor, content = responseText\<rparr>]"
  by (simp add: session_ops Let_def)

lemma analyze_settles_idle:
  "API_KEY env \<Longrightarrow>
   \<not> isProcessing (state (analyzeScreenAndSpeech env outcome imageData speechText s))"
  by (simp add: analyzeScreenAndSpeech_def updateState_def Let_def)

lemma analyze_sdkCalls:
  "API_KEY env \<Longrightarrow>
   sdkCalls (analyzeScreenAndSpeech env (Requested res) imageData speechText s) =
     sdkCalls s @
       [StartChat (convertToGeminiHistory (messageHistory s)),
        GenerateContent
          [Text (systemPrompt (subject s) (level s)),
           Text (if speechText \<noteq> [] then questionMessage speechText else defaultUserMessage),
           InlineData imageData ''image/jpeg'']]"
  by (simp add: session_ops Let_def split: api_result.splits)

lemma analyze_subject_level:
  "subject (analyzeScreenAndSpeech env outcome imageData speechText s) = subject s \<and>
   level (analyzeScreenAndSpeech env outcome imageData speechText s) = level s"
  by (simp add: session_ops Let_def split: analyze_outcome.splits api_result.splits)

text \<open>The request does not depend on the conversation history of the session.\<close>

lemma request_ignores_history:
  "API_KEY env \<Longrightarrow>
   requestsSent (analyzeScreenAndSpeech env (Requested res) imageData speechText (s\<lparr>messageHistory := h\<rparr>)) =
   requestsSent s @
     [GenerateContent
          [Text (systemPrompt (subject s) (level s)),
           Text (if speechText \<noteq> [] then questionMessage speechText else defaultUserMessage),
           InlineData imageData ''image/jpeg'']]"
  by (simp add: requestsSent_def analyze_sdkCalls)

text \<open>The conversion of the history keeps the order and the length, and maps the roles.\<close>

lemma convertToGeminiHistory_nth:
  "length (convertToGeminiHistory h) = length h \<and>
   (\<forall>i < length h.
      parts (convertToGeminiHistory h ! i) = [Text (content (h ! i))] \<and>
      c_role (convertToGeminiHistory h ! i) =
        (case role (h ! i) of Tutor \<Rightarrow> Model | System \<Rightarrow> User | User \<Rightarrow> User | Model \<Rightarrow> Model))"
  by (auto simp: convertToGeminiHistory_def convertRole_def split: role.splits)

subsection \<open>Starting and stopping the streams\<close>

lemma startVideo_frame:
  "isScreenActive (state (snd (startVideoStream env res s))) = isScreenActive (state s) \<and>
   localScreenStream (snd (startVideoStream env res s)) = localScreenStream s \<and>
   captureInterval (snd (startVideoStream env res s)) = captureInterval s \<and>
   capturePeriod (snd (startVideoStream env res s)) = capturePeriod s"
  by (simp add: start_defs split: media_result.splits option.splits)



lemma startScreen_success:
  "fst (startScreenStream env res s) = None \<Longrightarrow>
     isScreenActive (state (snd (startScreenStream env res s))) \<and>
     captureInterval (snd (startScreenStream env res s)) = Some (capturePeriod s)"
  by (simp add: start_defs split: media_result.splits option.splits if_splits)

text \<open>A start method that fails has stopped the tracks of its own previous stream.\<close>

lemma start_stops_own_stream:
  "(fst (startVideoStream env res s) \<noteq> None \<and> localVideoStream s = Some old \<and> (\<forall>st. res \<noteq> Granted st) \<longrightarrow>
      localVideoStream (snd (startVideoStream env res s)) = Some (map stopTrack old)) \<and>
   (fst (startScreenStream env res s) \<noteq> None \<and> localScreenStream s = Some old \<and> (\<forall>st. res \<noteq> Granted st) \<longrightarrow>
      localScreenStream (snd (startScreenStream env res s)) = Some (map stopTrack old))"
  by (cases res) (simp_all add: start_defs)

lemma startVideo_granted:
  "hasMediaDevices env \<Longrightarrow> getVideoTracks st \<noteq> [] \<Longrightarrow>
   startVideoStream env (Granted st) s =
     (None, updateState (\<lambda>st. st\<lparr>isVideoActive := True\<rparr>)
        ((case localVideoStream s of None \<Rightarrow> s | Some old \<Rightarrow> s\<lparr>localVideoStream := Some (map stopTrack old)\<rparr>)
           \<lparr>localVideoStream := Some (map (\<lambda>t. if kind t = VideoTrack then t\<lparr>enabled := True\<rparr> else t) st)\<rparr>))"
  by (simp add: startVideoStream_def Let_def)

lemma startScreen_granted:
  "hasMediaDevices env \<Longrightarrow> getVideoTracks st \<noteq> [] \<Longrightarrow>
   startScreenStream env (Granted st) s =
     (None, startScreenCapture (updateState (\<lambda>st. st\<lparr>isScreenActive := True\<rparr>)
        ((case localScreenStream s of None \<Rightarrow> s | Some old \<Rightarrow> s\<lparr>localScreenStream := Some (map stopTrack old)\<rparr>)
           \<lparr>localScreenStream := Some (map (\<lambda>t. if kind t = VideoTrack then t\<lparr>onended := True, enabled := True\<rparr> else t) st)\<rparr>)))"
  by (simp add: startScreenStream_def Let_def)






text \<open>With nothing to release, stopping the camera or the screen is the identity.\<close>

lemma stop_nothing_to_release:
  "(localVideoStream s = None \<longrightarrow> stopVideoStream s = s) \<and>
   (localScreenStream s = None \<and> captureInterval s = None \<longrightarrow> stopScreenStream s = s)"
  by (simp add: stop_defs)




subsection \<open>The timers of the speech recognizer, step by step\<close>











subsection \<open>The concrete sessions\<close>

lemma demo_facts:
  "API_KEY demo_runtime" "hasWindow demo_runtime" "hasImageCapture demo_runtime"
  "hasSpeechRecognition demo_runtime" "hasSpeechSynthesis demo_runtime" "hasMediaDevices demo_runtime"
  "\<not> recognitionCtorThrows demo_runtime" "\<not> recognitionStartThrows demo_runtime"
  "\<not> recognitionStopThrows demo_runtime" "\<not> synthSpeakThrows demo_runtime"
  "\<not> hasImageCapture no_capture_runtime"
  by (simp_all add: demo_runtime_def no_capture_runtime_def)

lemma demo_tracks:
  "getVideoTracks [camera_track] \<noteq> []" "getVideoTracks [screen_track] \<noteq> []"
  by (simp_all add: getVideoTracks_def camera_track_def screen_track_def)

lemma fresh_fields:
  "messageHistory fresh_session = [\<lparr>role = System, content = constructorSystemContent ''algebra'' ''beginner''\<rparr>]"
  "subject fresh_session = ''algebra''" "level fresh_session = ''beginner''"
  "sdkCalls fresh_session = []" "sentMessages fresh_session = []"
  "speechSynthesis fresh_session \<noteq> None"
  "localVideoStream fresh_session = None" "localScreenStream fresh_session = None"
  "localAudioStream fresh_session = None" "captureInterval fresh_session = None"
  "capturePeriod fresh_session = 5000" "speechToTextResult fresh_session = []"
  "state fresh_session = \<lparr>isConnected = False, isAudioActive = False, isVideoActive = False,
                   isScreenActive = False, isProcessing = False, isSpeaking = False\<rparr>"
  "speechRecognition fresh_session = Some 0" "recognizers fresh_session = [attached]"
  "timers fresh_session = []" "clock fresh_session = 0"
  by (simp_all add: fresh_session_def new_session_def demo_runtime_def attached_def Let_def)

lemma sharing_session_eq:
  "startScreenStream demo_runtime (Granted [screen_track]) fresh_session =
     (None, startScreenCapture (updateState (\<lambda>st. st\<lparr>isScreenActive := True\<rparr>)
              (fresh_session\<lparr>localScreenStream := Some [screen_track\<lparr>onended := True\<rparr>]\<rparr>)))"
  by (subst startScreen_granted [OF demo_facts(6) demo_tracks(2)]) (simp add: fresh_fields screen_track_def)

lemma sharing_fields:
  "isScreenActive (state sharing_session)" "\<not> isVideoActive (state sharing_session)"
  "captureInterval sharing_session = Some 5000"
  "localScreenStream sharing_session = Some [screen_track\<lparr>onended := True\<rparr>]"
  "speechToTextResult sharing_session = []"
  by (simp_all add: sharing_session_def sharing_session_eq updateState_def startScreenCapture_def fresh_fields)

lemma sharing_captures: "capturesFrame demo_runtime sharing_session ''IMG''"
  by (simp add: capturesFrame_def sharing_fields demo_facts getVideoTracks_def)
     (simp add: screen_track_def demo_runtime_def)

lemma heard_session_eq:
  "heard_session =
     sendMessage \<lparr>mtype = SpeechText, mcontent = ''hello'', interim = Some False\<rparr>
       (sharing_session\<lparr>speechToTextResult := ''hello''\<rparr>)"
  by (simp add: heard_session_def onresult_handler_def)

lemma heard_captures: "capturesFrame demo_runtime heard_session ''IMG''"
  using sharing_captures by (simp add: heard_session_eq sendMessage_def capturesFrame_def)

lemma heard_fields:
  "speechToTextResult heard_session = ''hello''" "isScreenActive (state heard_session)"
  "analyzeCalls heard_session = analyzeCalls sharing_session"
  by (simp_all add: heard_session_eq sendMessage_def sharing_fields)

lemma camera_session_eq:
  "startVideoStream demo_runtime (Granted [camera_track]) fresh_session =
     (None, updateState (\<lambda>st. st\<lparr>isVideoActive := True\<rparr>) (fresh_session\<lparr>localVideoStream := Some [camera_track]\<rparr>))"
  by (subst startVideo_granted [OF demo_facts(6) demo_tracks(1)]) (simp add: fresh_fields camera_track_def)

lemma camera_session_fields:
  "isVideoActive (state camera_session)" "\<not> isScreenActive (state camera_session)"
  "captureInterval camera_session = None"
  "localVideoStream camera_session = Some [camera_track]"
  "localScreenStream camera_session = None"
  by (simp_all add: camera_session_def camera_session_eq updateState_def fresh_fields)



lemma camera_heard_eq:
  "camera_heard_session =
     sendMessage \<lparr>mtype = SpeechText, mcontent = ''hello'', interim = Some False\<rparr>
       (camera_session\<lparr>speechToTextResult := ''hello''\<rparr>)"
  by (simp add: camera_heard_session_def onresult_handler_def)







subsection \<open>The capability negotiator\<close>







subsection \<open>The frame sampler\<close>

text \<open>
  Claim C4, as stated: while any visual capability (camera or screen) is active the frame
  sampler runs at the fixed 5-second period and each tick grabs its frame from whichever
  visual source is active, the camera exactly as the screen.

  Only \<open>startScreenStream\<close> starts the interval timer, and a tick returns at once unless
  the screen is shared. With the camera on and a transcript waiting, no timer runs, and
  a tick would change nothing.
\<close>

theorem C4_camera_not_sampled:
  "isVideoActive (state camera_heard_session) \<and> captureInterval camera_heard_session = None \<and>
   speechToTextResult camera_heard_session = ''hello'' \<and>
   captureScreenFrame demo_runtime (Requested (ApiReturns ''ok'')) camera_heard_session = camera_heard_session"
proof -
  have "\<not> isScreenActive (state camera_heard_session)"
    by (simp add: camera_heard_eq sendMessage_def camera_session_fields)
  then have "captureScreenFrame demo_runtime (Requested (ApiReturns ''ok'')) camera_heard_session = camera_heard_session"
    by (simp add: tick_screen_inactive)
  then show ?thesis
    by (simp add: camera_heard_eq sendMessage_def camera_session_fields)
qed

text \<open>
  Claim C4, amended: the frame sampler runs for the screen only. A successful
  \<open>startScreenStream\<close> starts the interval timer with the session's capture period, which
  the constructor sets to 5000 ms; \<open>startVideoStream\<close> leaves the timer as it is; a tick
  while the screen is not shared does nothing; and a tick that forwards a frame forwards
  the one grabbed from the first video track of the screen stream.
\<close>

theorem C4_sampler_screen_only:
  "(fst (startScreenStream env res s) = None \<longrightarrow>
      captureInterval (snd (startScreenStream env res s)) = Some (capturePeriod s)) \<and>
   capturePeriod (new_session env sid uid subj lvl) = 5000 \<and>
   captureInterval (snd (startVideoStream env res s)) = captureInterval s \<and>
   (\<not> isScreenActive (state t) \<longrightarrow> captureScreenFrame env out t = t) \<and>
   (capturesFrame env u b \<and> speechToTextResult u \<noteq> [] \<longrightarrow>
      analyzeCalls (captureScreenFrame env out u) = analyzeCalls u @ [(b, speechToTextResult u)])"
proof -
  have period: "capturePeriod (new_session env sid uid subj lvl) = 5000"
    by (simp add: new_session_def Let_def)
  have fwd: "capturesFrame env u b \<and> speechToTextResult u \<noteq> [] \<longrightarrow>
      analyzeCalls (captureScreenFrame env out u) = analyzeCalls u @ [(b, speechToTextResult u)]"
    using tick_captured [of env u b out] by (auto simp: analyzeCalls_analyze)
  show ?thesis
    using startScreen_success [of env res s] startVideo_frame [of env res s]
      tick_screen_inactive [of t env out] period fwd
    by blast
qed

theorem C4_sampler_screen_only_witness:
  "fst (startScreenStream demo_runtime (Granted [screen_track]) fresh_session) = None \<and>
   captureInterval sharing_session = Some 5000 \<and>
   \<not> isScreenActive (state camera_session) \<and>
   captureScreenFrame demo_runtime (Requested (ApiReturns ''ok'')) camera_session = camera_session \<and>
   capturesFrame demo_runtime heard_session ''IMG'' \<and> speechToTextResult heard_session = ''hello'' \<and>
   analyzeCalls (captureScreenFrame demo_runtime (Requested (ApiReturns ''ok'')) heard_session) =
     analyzeCalls heard_session @ [(''IMG'', ''hello'')]"
proof -
  have ok: "fst (startScreenStream demo_runtime (Granted [screen_track]) fresh_session) = None"
    by (simp add: sharing_session_eq)
  show ?thesis
    using ok heard_captures heard_fields(1) camera_session_fields(2) sharing_fields(3)
      C4_sampler_screen_only [of demo_runtime "Granted [screen_track]" fresh_session
        "''s1''" "''u1''" "''algebra''" "''beginner''" camera_session "Requested (ApiReturns ''ok'')"
        heard_session "''IMG''"]
    by simp
qed







subsection \<open>The tutor response engine\<close>

text \<open>
  Claim C2, as stated: when the generative-API call of a frame-plus-transcript sample
  fails, the conversation history is unchanged (no entry of the failed turn is appended),
  a single retry-later advisory is emitted and the session remains usable.

  The code pushes the user turn to the history, and sends it to the handlers, before it
  makes the request, and nothing takes it back when the request fails. At the fresh
  session with the transcript \<open>hello\<close> the history has grown by the user entry.
\<close>

theorem C2_failed_call_appends_user_turn:
  "messageHistory (analyzeScreenAndSpeech demo_runtime (Requested ApiFails) ''IMG'' ''hello'' fresh_session)
     = messageHistory fresh_session @ [\<lparr>role = User, content = questionMessage ''hello''\<rparr>] \<and>
   messageHistory (analyzeScreenAndSpeech demo_runtime (Requested ApiFails) ''IMG'' ''hello'' fresh_session)
     \<noteq> messageHistory fresh_session"
  by (simp add: analyze_fail_history demo_facts)

text \<open>
  Claim C2, amended: when the generative-API call fails, the history is the old history
  followed by the user turn of the failed attempt and by nothing else (no tutor entry; the
  user turn is there only for a non-empty transcript), the messages sent are the user
  message and then exactly one retry-later advisory, \<open>isProcessing\<close> is false again, and
  the next attempt works: a following call that succeeds appends its user turn and the
  tutor's reply.
\<close>

theorem C2_failed_call_history:
  assumes "API_KEY env"
  shows "messageHistory (analyzeScreenAndSpeech env (Requested ApiFails) imageData speechText s) =
           messageHistory s @
             (if speechText \<noteq> [] then [\<lparr>role = User, content = questionMessage speechText\<rparr>] else []) \<and>
         sentMessages (analyzeScreenAndSpeech env (Requested ApiFails) imageData speechText s) =
           sentMessages s @
             (if speechText \<noteq> []
              then [\<lparr>mtype = UserMessage, mcontent = questionMessage speechText, interim = None\<rparr>] else []) @
             [systemInfo retryLaterMessage] \<and>
         \<not> isProcessing (state (analyzeScreenAndSpeech env (Requested ApiFails) imageData speechText s)) \<and>
         (speechText' \<noteq> [] \<longrightarrow>
            messageHistory (analyzeScreenAndSpeech env (Requested (ApiReturns responseText)) imageData' speechText'
                (analyzeScreenAndSpeech env (Requested ApiFails) imageData speechText s)) =
              messageHistory (analyzeScreenAndSpeech env (Requested ApiFails) imageData speechText s) @
                [\<lparr>role = User, content = questionMessage speechText'\<rparr>, \<lparr>role = Tutor, content = responseText\<rparr>])"
  using assms analyze_fail_history [OF assms] analyze_fail_sent [OF assms] analyze_settles_idle [OF assms]
    analyze_ok_history [OF assms]
  by simp

theorem C2_failed_call_history_witness:
  "API_KEY demo_runtime \<and>
   sentMessages (analyzeScreenAndSpeech demo_runtime (Requested ApiFails) ''IMG'' ''hello'' fresh_session) =
     sentMessages fresh_session @
       [\<lparr>mtype = UserMessage, mcontent = questionMessage ''hello'', interim = None\<rparr>,
        systemInfo retryLaterMessage] \<and>
   \<not> isProcessing (state (analyzeScreenAndSpeech demo_runtime (Requested ApiFails) ''IMG'' ''hello'' fresh_session)) \<and>
   messageHistory (analyzeScreenAndSpeech demo_runtime (Requested (ApiReturns ''ok'')) ''IMG2'' ''again''
       (analyzeScreenAndSpeech demo_runtime (Requested ApiFails) ''IMG'' ''hello'' fresh_session)) =
     messageHistory (analyzeScreenAndSpeech demo_runtime (Requested ApiFails) ''IMG'' ''hello'' fresh_session) @
       [\<lparr>role = User, content = questionMessage ''again''\<rparr>, \<lparr>role = Tutor, content = ''ok''\<rparr>]"
  using demo_facts(1)
    C2_failed_call_history [OF demo_facts(1), of "''IMG''" "''hello''" fresh_session "''again''" "''ok''" "''IMG2''"]
  by simp

text \<open>
  Claim C3: the request sent to the generative-language API combines the fixed tutoring
  instructions, the subject and level, the prior conversation turns (oldest first, tutor
  mapped to model) and the new text with the inlined frame.

  The code converts the history and starts a chat with it, but then calls
  \<open>generateContent\<close> on the model, not on the chat: the request carries the instructions
  with subject and level, the new text and the image, and no prior turn. Evaluated on a
  session whose history holds the system message, a question and the tutor's answer.
\<close>

theorem C3_request_omits_history:
  "messageHistory tutored_session =
     [\<lparr>role = System, content = constructorSystemContent ''algebra'' ''beginner''\<rparr>,
      \<lparr>role = User, content = questionMessage ''what is a variable''\<rparr>,
      \<lparr>role = Tutor, content = ''A variable is a name for a number.''\<rparr>] \<and>
   sdkCalls (analyzeScreenAndSpeech demo_runtime (Requested (ApiReturns ''ok'')) ''IMG2'' ''and x'' tutored_session) =
     sdkCalls tutored_session @
     [StartChat
        [\<lparr>c_role = User, parts = [Text (constructorSystemContent ''algebra'' ''beginner'')]\<rparr>,
         \<lparr>c_role = User, parts = [Text (questionMessage ''what is a variable'')]\<rparr>,
         \<lparr>c_role = Model, parts = [Text ''A variable is a name for a number.'']\<rparr>],
      GenerateContent
        [Text (systemPrompt ''algebra'' ''beginner''), Text (questionMessage ''and x''),
         InlineData ''IMG2'' ''image/jpeg'']]"
  by (simp add: tutored_session_def analyze_ok_history analyze_sdkCalls analyze_subject_level fresh_fields
      demo_facts convertToGeminiHistory_def convertRole_def)



subsection \<open>The speech synthesizer\<close>

text \<open>
  Claim C8: for two consecutive calls \<open>speak(A)\<close>, \<open>speak(B)\<close> the playback of \<open>A\<close> is cancelled,
  not queued, before \<open>B\<close> starts, so at most one utterance is active; \<open>isSpeaking\<close> is set
  true when an utterance starts and false on its end or error.

  Where speech synthesis is available: after the two calls the queue of the synthesizer
  holds the utterance of \<open>B\<close> alone and \<open>isSpeaking\<close> is true (after the first call it held
  the utterance of \<open>A\<close> alone); if \<open>speak\<close> throws, the queue is empty and \<open>isSpeaking\<close> is
  false; the end and the error of the utterance set \<open>isSpeaking\<close> to false.
\<close>

theorem C8_single_utterance:
  assumes "hasSpeechSynthesis env" and "speechSynthesis s \<noteq> None"
  shows "synthQueue (speakResponse env b (speakResponse env a s)) =
           (if synthSpeakThrows env then [] else [newUtterance b]) \<and>
         synthQueue (speakResponse env a s) = (if synthSpeakThrows env then [] else [newUtterance a]) \<and>
         isSpeaking (state (speakResponse env a s)) = (\<not> synthSpeakThrows env) \<and>
         isSpeaking (state (speakResponse env b (speakResponse env a s))) = (\<not> synthSpeakThrows env) \<and>
         \<not> isSpeaking (state (utterance_onend (speakResponse env b (speakResponse env a s)))) \<and>
         \<not> isSpeaking (state (utterance_onerror (speakResponse env b (speakResponse env a s)))) \<and>
         synthQueue (utterance_onend (speakResponse env b (speakResponse env a s))) = [] \<and>
         synthQueue (utterance_onerror (speakResponse env b (speakResponse env a s))) = []"
  using assms
  by (auto simp: speakResponse_def updateState_def setTimeout_def sendMessage_def Let_def
      utterance_onend_def utterance_onerror_def newUtterance_def)

theorem C8_single_utterance_witness:
  "hasSpeechSynthesis demo_runtime \<and> speechSynthesis fresh_session \<noteq> None \<and>
   synthQueue (speakResponse demo_runtime ''A'' fresh_session) = [newUtterance ''A''] \<and>
   synthQueue (speakResponse demo_runtime ''B'' (speakResponse demo_runtime ''A'' fresh_session)) = [newUtterance ''B''] \<and>
   isSpeaking (state (speakResponse demo_runtime ''B'' (speakResponse demo_runtime ''A'' fresh_session))) \<and>
   \<not> isSpeaking (state (utterance_onend
        (speakResponse demo_runtime ''B'' (speakResponse demo_runtime ''A'' fresh_session))))"
  using C8_single_utterance [OF demo_facts(5) fresh_fields(6), of "''B''" "''A''"]
    demo_facts(5,10) fresh_fields(6)
  by simp

subsection \<open>The speech recognizer\<close>





end
